theory Spec2Isabelle
  imports Complex_Main
begin

section \<open>Least-squares Monte Carlo pricing: the notebook's functions\<close>

text \<open>
  The notebook \<^verbatim>\<open>smf_group19_code_longstaff_schwartz_simulation.ipynb\<close> holds a
  single-asset cell (\<^verbatim>\<open>simulate_gbm\<close>, \<^verbatim>\<open>longstaff_schwartz_train\<close>,
  \<^verbatim>\<open>longstaff_schwartz_test\<close>) and a multi-asset cell (\<^verbatim>\<open>simulate_gbm_multi\<close>,
  \<^verbatim>\<open>bermudan_max_call_payoff\<close>, a second \<^verbatim>\<open>longstaff_schwartz_train\<close>,
  \<^verbatim>\<open>longstaff_schwartz_evaluate\<close>).

  Modelling decisions.
  \<^item> Floating-point numbers are real numbers: rounding of arithmetic, overflow and NaN
    are outside the model. The conversion to the 32-bit storage of the multi-asset
    simulator, which the source writes out, is a parameter of its model.
  \<^item> A one-dimensional array is a list, a two-dimensional array a list of rows of one
    length, the three-dimensional path array a list (paths) of lists (assets) of lists
    (dates). In the path-major layout of the multi-asset engine the empty list stands for
    the array of shape (0, 0).
  \<^item> Every \<^verbatim>\<open>raise ValueError\<close> is a value \<open>Inl e\<close>; the constructor of \<open>e\<close> tells
    the raise sites apart by their message.
  \<^item> numpy's global random state is threaded explicitly; its operations
    (\<^verbatim>\<open>np.random.seed\<close>, \<^verbatim>\<open>np.random.standard_normal\<close>, \<^verbatim>\<open>np.random.randn\<close>) and
    \<^verbatim>\<open>np.polyfit\<close> belong to numpy, not to the notebook, and are parameters.
\<close>

type_synonym vec = "real list"
type_synonym matrix = "real list list"
type_synonym tensor = "real list list list"

datatype error =
    InvalidParameter      \<comment> \<open>the parameter checks of the simulators and of train\<close>
  | CoefficientMismatch   \<comment> \<open>"Coefficients length mismatch with time steps"\<close>
  | SeedOutOfRange        \<comment> \<open>numpy: "Seed must be between 0 and 2**32 - 1"\<close>
  | ZeroDivisionError     \<comment> \<open>\<^verbatim>\<open>T / M\<close> with \<open>M = 0\<close>\<close>
  | IndexError            \<comment> \<open>\<^verbatim>\<open>S[-1]\<close> on an array with no row\<close>
  | ZeroSizeReduction     \<comment> \<open>\<^verbatim>\<open>np.amax\<close> along an axis of length 0\<close>

text \<open>A Python number as the simulator receives it for \<^verbatim>\<open>M\<close> and \<^verbatim>\<open>I\<close>.\<close>

datatype pynum = PyInt int | PyFloat real

fun is_positive_int :: "pynum \<Rightarrow> bool" where
  "is_positive_int (PyInt n) = (0 < n)"
| "is_positive_int (PyFloat x) = False"

fun int_of :: "pynum \<Rightarrow> int" where
  "int_of (PyInt n) = n"
| "int_of (PyFloat x) = \<lfloor>x\<rfloor>"

subsection \<open>numpy\<close>

record 'g np_random =
  np_seed :: "int \<Rightarrow> 'g"
  np_standard_normal :: "nat \<Rightarrow> nat \<Rightarrow> 'g \<Rightarrow> matrix \<times> 'g"
  np_randn :: "nat \<Rightarrow> nat \<Rightarrow> 'g \<Rightarrow> matrix \<times> 'g"

type_synonym polyfit = "vec \<Rightarrow> vec \<Rightarrow> nat \<Rightarrow> vec"

definition random_seed :: "'g np_random \<Rightarrow> int \<Rightarrow> error + 'g" where
  "random_seed rng s =
     (if 0 \<le> s \<and> s < 2 ^ 32 then Inr (np_seed rng s) else Inl SeedOutOfRange)"

text \<open>\<^verbatim>\<open>np.polyval(p, x)\<close>: Horner's scheme, highest power first.\<close>

definition polyval :: "vec \<Rightarrow> real \<Rightarrow> real" where
  "polyval p x = foldl (\<lambda>y c. y * x + c) 0 p"

text \<open>\<^verbatim>\<open>a[mask]\<close> with a boolean mask.\<close>

definition mask_select :: "'a list \<Rightarrow> bool list \<Rightarrow> 'a list" where
  "mask_select xs bs = map fst (filter snd (zip xs bs))"

definition np_where :: "bool list \<Rightarrow> vec \<Rightarrow> vec \<Rightarrow> vec" where
  "np_where c a b = map (\<lambda>(ci, ai, bi). if ci then ai else bi) (zip c (zip a b))"

definition np_greater :: "vec \<Rightarrow> vec \<Rightarrow> bool list" where
  "np_greater a b = map (\<lambda>(ai, bi). ai > bi) (zip a b)"

definition np_mean :: "vec \<Rightarrow> real" where
  "np_mean v = sum_list v / real (length v)"

text \<open>\<^verbatim>\<open>np.maximum(prices - K, 0)\<close>\<close>

definition call_payoff :: "vec \<Rightarrow> real \<Rightarrow> vec" where
  "call_payoff prices K = map (\<lambda>p. max (p - K) 0) prices"

subsection \<open>Single asset: \<^verbatim>\<open>simulate_gbm\<close>\<close>

text \<open>
  \<^verbatim>\<open>for t in range(1, M + 1): paths[t] = paths[t-1] * np.exp(drift + vol * rand_numbers[t-1])\<close>
\<close>

fun gbm_loop :: "real \<Rightarrow> real \<Rightarrow> matrix \<Rightarrow> nat list \<Rightarrow> matrix \<Rightarrow> matrix" where
  "gbm_loop drift vol rand_numbers [] paths = paths"
| "gbm_loop drift vol rand_numbers (t # ts) paths =
     gbm_loop drift vol rand_numbers ts
       (paths[t := map (\<lambda>(p, z). p * exp (drift + vol * z))
                     (zip (paths ! (t - 1)) (rand_numbers ! (t - 1)))])"

definition simulate_gbm ::
  "'g np_random \<Rightarrow> real \<Rightarrow> real \<Rightarrow> real \<Rightarrow> real \<Rightarrow> real \<Rightarrow> pynum \<Rightarrow> pynum \<Rightarrow> int option \<Rightarrow> 'g
     \<Rightarrow> error + (matrix \<times> 'g)" where
  "simulate_gbm rng S0 r dividend sigma T M I seed g =
     (if list_ex (\<lambda>param. param \<le> 0) [S0, T] \<or> list_ex (\<lambda>param. param < 0) [sigma]
      then Inl InvalidParameter
      else if \<not> list_all is_positive_int [M, I] then Inl InvalidParameter
      else
        let m = nat (int_of M); i = nat (int_of I);
            dt = T / real m;
            paths = (replicate (m + 1) (replicate i 0))[0 := replicate i S0]
        in case (case seed of None \<Rightarrow> Inr g | Some s \<Rightarrow> random_seed rng s) of
             Inl e \<Rightarrow> Inl e
           | Inr g1 \<Rightarrow>
               let drift = (r - dividend - 0.5 * sigma ^ 2) * dt;
                   vol = sigma * sqrt dt;
                   (rand_numbers, g2) = np_standard_normal rng m i g1
               in Inr (gbm_loop drift vol rand_numbers [1..<m + 1] paths, g2))"

subsection \<open>Single asset: \<^verbatim>\<open>longstaff_schwartz_train\<close>\<close>

text \<open>One pass of the body of \<^verbatim>\<open>for t in reversed(range(1, M))\<close>; the state is \<open>(V, coefficients)\<close>.\<close>

definition train_step ::
  "polyfit \<Rightarrow> matrix \<Rightarrow> real \<Rightarrow> real \<Rightarrow> nat \<Rightarrow> nat \<Rightarrow> vec \<times> vec option list
     \<Rightarrow> vec \<times> vec option list" where
  "train_step pf S K discount degree t st =
     (let V = fst st; coefficients = snd st;
          current_prices = S ! t;
          in_the_money = map (\<lambda>p. p > K) current_prices;
          X = mask_select current_prices in_the_money;
          Y = map (\<lambda>v. v * discount) (mask_select V in_the_money)
      in if length X = 0 then (V, coefficients @ [None])
         else
           let coeff = pf X Y degree;
               continuation = map (polyval coeff) current_prices;
               exercise = call_payoff current_prices K
           in (np_where (np_greater exercise continuation) exercise V,
               coefficients @ [Some coeff]))"

fun train_loop ::
  "polyfit \<Rightarrow> matrix \<Rightarrow> real \<Rightarrow> real \<Rightarrow> nat \<Rightarrow> nat list \<Rightarrow> vec \<times> vec option list
     \<Rightarrow> vec \<times> vec option list" where
  "train_loop pf S K discount degree [] st = st"
| "train_loop pf S K discount degree (t # ts) st =
     train_loop pf S K discount degree ts (train_step pf S K discount degree t st)"

definition longstaff_schwartz_train ::
  "polyfit \<Rightarrow> matrix \<Rightarrow> real \<Rightarrow> real \<Rightarrow> real \<Rightarrow> int \<Rightarrow> error + vec option list" where
  "longstaff_schwartz_train pf S_paths_train K r T degree =
     (let M = int (length S_paths_train) - 1
      in if list_ex (\<lambda>param. param \<le> 0) [K, T] \<or> degree < 0 then Inl InvalidParameter
         else if M = 0 then Inl ZeroDivisionError
         else if S_paths_train = [] then Inl IndexError
         else
           let dt = T / real_of_int M;
               discount = exp (- r * dt);
               V = call_payoff (last S_paths_train) K
           in Inr (rev (snd (train_loop pf S_paths_train K discount (nat degree)
                               (rev [1..<nat M]) (V, [])))))"

subsection \<open>Single asset: \<^verbatim>\<open>longstaff_schwartz_test\<close>\<close>

definition test_step :: "matrix \<Rightarrow> real \<Rightarrow> vec option list \<Rightarrow> nat \<Rightarrow> vec \<Rightarrow> vec" where
  "test_step S K coefficients t V =
     (case coefficients ! (t - 1) of
        None \<Rightarrow> V
      | Some c \<Rightarrow>
          let current_prices = S ! t;
              continuation = map (polyval c) current_prices;
              exercise = call_payoff current_prices K
          in np_where (np_greater exercise continuation) exercise V)"

fun test_loop :: "matrix \<Rightarrow> real \<Rightarrow> vec option list \<Rightarrow> nat list \<Rightarrow> vec \<Rightarrow> vec" where
  "test_loop S K coefficients [] V = V"
| "test_loop S K coefficients (t # ts) V =
     test_loop S K coefficients ts (test_step S K coefficients t V)"

definition longstaff_schwartz_test ::
  "matrix \<Rightarrow> real \<Rightarrow> real \<Rightarrow> real \<Rightarrow> vec option list \<Rightarrow> error + real" where
  "longstaff_schwartz_test S_paths_test K r T coefficients =
     (let M = int (length S_paths_test) - 1
      in if int (length coefficients) \<noteq> M - 1 then Inl CoefficientMismatch
         else if M = 0 then Inl ZeroDivisionError
         else if S_paths_test = [] then Inl IndexError
         else
           let dt = T / real_of_int M;
               V = call_payoff (last S_paths_test) K;
               V' = test_loop S_paths_test K coefficients (rev [1..<nat M]) V
           in Inr (np_mean V' * exp (- r * dt)))"

subsection \<open>Multi asset: \<^verbatim>\<open>simulate_gbm_multi\<close>\<close>

text \<open>\<^verbatim>\<open>dividend_rates: Union[float, np.ndarray]\<close>\<close>

datatype dividend_rates = DivFloat real | DivArray vec

text \<open>
  The multi-asset simulator stores its paths in 32-bit precision
  (\<^verbatim>\<open>dtype=np.float32\<close>, \<^verbatim>\<open>.astype(np.float32)\<close>). The conversion to that storage is
  the parameter \<open>f32\<close>; the arithmetic between two conversions is exact, as everywhere in
  the model.

  The body of \<^verbatim>\<open>for step in range(1, n_steps + 1)\<close>: one draw of shape
  (num_paths, dimension) per step, converted, then
  \<^verbatim>\<open>paths[:, :, step] = paths[:, :, step-1] * np.exp(drift_terms + diffusion_terms * rand_nums)\<close>.
  The state is the path array and the random state.
\<close>

definition gbm_multi_step ::
  "(real \<Rightarrow> real) \<Rightarrow> 'g np_random \<Rightarrow> vec \<Rightarrow> vec \<Rightarrow> nat \<Rightarrow> nat \<Rightarrow> nat \<Rightarrow> tensor \<times> 'g
     \<Rightarrow> tensor \<times> 'g" where
  "gbm_multi_step f32 rng drift_terms diffusion_terms num_paths dimension step st =
     (let (drawn, g') = np_randn rng num_paths dimension (snd st);
          rand_nums = map (map f32) drawn
      in (map (\<lambda>(path, zrow).
                 map (\<lambda>(hist, dr, df, z).
                        hist[step := f32 (hist ! (step - 1) * exp (dr + df * z))])
                     (zip path (zip drift_terms (zip diffusion_terms zrow))))
              (zip (fst st) rand_nums),
          g'))"

fun gbm_multi_loop ::
  "(real \<Rightarrow> real) \<Rightarrow> 'g np_random \<Rightarrow> vec \<Rightarrow> vec \<Rightarrow> nat \<Rightarrow> nat \<Rightarrow> nat list \<Rightarrow> tensor \<times> 'g
     \<Rightarrow> tensor \<times> 'g" where
  "gbm_multi_loop f32 rng drift_terms diffusion_terms num_paths dimension [] st = st"
| "gbm_multi_loop f32 rng drift_terms diffusion_terms num_paths dimension (step # steps) st =
     gbm_multi_loop f32 rng drift_terms diffusion_terms num_paths dimension steps
       (gbm_multi_step f32 rng drift_terms diffusion_terms num_paths dimension step st)"

text \<open>
  \<^verbatim>\<open>np.random.seed(seed) if seed else None\<close> tests the truth value of \<^verbatim>\<open>seed\<close>:
  \<^verbatim>\<open>None\<close> and \<^verbatim>\<open>0\<close> are both false. \<^verbatim>\<open>np.empty\<close> is modelled by zeros: every
  cell is assigned before it is read.
\<close>

definition simulate_gbm_multi_f32 ::
  "(real \<Rightarrow> real) \<Rightarrow> 'g np_random \<Rightarrow> int \<Rightarrow> real \<Rightarrow> dividend_rates \<Rightarrow> vec \<Rightarrow> vec \<Rightarrow> real \<Rightarrow> real
     \<Rightarrow> int \<Rightarrow> int option \<Rightarrow> 'g \<Rightarrow> error + (tensor \<times> 'g)" where
  "simulate_gbm_multi_f32 f32 rng dimension risk_free_rate dividend sigma initial_prices
       time_horizon time_step num_paths seed g =
     (if dimension \<le> 0 then Inl InvalidParameter
      else if int (length sigma) \<noteq> dimension \<or> int (length initial_prices) \<noteq> dimension
        then Inl InvalidParameter
      else if time_horizon \<le> 0 \<or> time_step \<le> 0 then Inl InvalidParameter
      else if num_paths \<le> 0 then Inl InvalidParameter
      else if risk_free_rate < 0 then Inl InvalidParameter
      else if (case dividend of DivArray a \<Rightarrow> int (length a) \<noteq> dimension | DivFloat q \<Rightarrow> False)
        then Inl InvalidParameter
      else
        case (case seed of None \<Rightarrow> Inr g
              | Some s \<Rightarrow> if s \<noteq> 0 then random_seed rng s else Inr g) of
          Inl e \<Rightarrow> Inl e
        | Inr g1 \<Rightarrow>
            let dividends = (case dividend of DivFloat q \<Rightarrow> replicate (nat dimension) q
                             | DivArray a \<Rightarrow> a);
                n_steps = nat \<lfloor>time_horizon / time_step\<rfloor>;
                dt_sqrt = sqrt time_step;
                drift_terms = map (\<lambda>(q, s). (risk_free_rate - q - 0.5 * s ^ 2) * time_step)
                                  (zip dividends sigma);
                diffusion_terms = map (\<lambda>s. s * dt_sqrt) sigma;
                paths = replicate (nat num_paths)
                          (map (\<lambda>s0. (replicate (n_steps + 1) 0)[0 := f32 s0]) initial_prices)
            in Inr (gbm_multi_loop f32 rng drift_terms diffusion_terms (nat num_paths)
                      (nat dimension) [1..<n_steps + 1] (paths, g1)))"

text \<open>The simulator with exact storage, as the rest of the model has it.\<close>

definition simulate_gbm_multi ::
  "'g np_random \<Rightarrow> int \<Rightarrow> real \<Rightarrow> dividend_rates \<Rightarrow> vec \<Rightarrow> vec \<Rightarrow> real \<Rightarrow> real \<Rightarrow> int
     \<Rightarrow> int option \<Rightarrow> 'g \<Rightarrow> error + (tensor \<times> 'g)" where
  "simulate_gbm_multi rng dimension risk_free_rate dividend sigma initial_prices
       time_horizon time_step num_paths seed g =
     simulate_gbm_multi_f32 (\<lambda>x. x) rng dimension risk_free_rate dividend sigma initial_prices
       time_horizon time_step num_paths seed g"

subsection \<open>Multi asset: payoff, train and evaluate\<close>

text \<open>
  The engine of the second cell receives the running maximum over the assets as an array
  of shape (num_paths, total_steps): one row per path. It is modelled for arrays with at
  least one path.
\<close>

definition bermudan_max_call_payoff :: "matrix \<Rightarrow> real \<Rightarrow> error + vec" where
  "bermudan_max_call_payoff underlying_prices strike_price =
     (if list_ex (\<lambda>row. row = []) underlying_prices then Inl ZeroSizeReduction
      else
        let max_asset = map (\<lambda>row. fold max (tl row) (hd row)) underlying_prices
        in Inr (map (\<lambda>m. max (m - strike_price) 0) max_asset))"

definition train_step_multi ::
  "polyfit \<Rightarrow> matrix \<Rightarrow> real \<Rightarrow> real \<Rightarrow> nat \<Rightarrow> nat \<Rightarrow> vec \<times> vec option list
     \<Rightarrow> error + (vec \<times> vec option list)" where
  "train_step_multi pf price_paths strike_price discount_factor poly_degree step st =
     (let value_func = fst st; coefficients = snd st;
          current_prices = map (\<lambda>row. row ! step) price_paths;
          itm_mask = map (\<lambda>p. p > strike_price) current_prices;
          X = mask_select current_prices itm_mask;
          Y = map (\<lambda>v. v * discount_factor) (mask_select value_func itm_mask)
      in if length X = 0 then Inr (value_func, coefficients @ [None])
         else
           let coeff = pf X Y poly_degree;
               continuation = map (polyval coeff) current_prices
           in (case bermudan_max_call_payoff (map (\<lambda>p. [p]) current_prices) strike_price of
                 Inl e \<Rightarrow> Inl e
               | Inr exercise \<Rightarrow>
                   Inr (np_where (np_greater exercise continuation) exercise value_func,
                        coefficients @ [Some coeff])))"

fun train_loop_multi ::
  "polyfit \<Rightarrow> matrix \<Rightarrow> real \<Rightarrow> real \<Rightarrow> nat \<Rightarrow> nat list \<Rightarrow> vec \<times> vec option list
     \<Rightarrow> error + (vec \<times> vec option list)" where
  "train_loop_multi pf price_paths strike_price discount_factor poly_degree [] st = Inr st"
| "train_loop_multi pf price_paths strike_price discount_factor poly_degree (step # steps) st =
     (case train_step_multi pf price_paths strike_price discount_factor poly_degree step st of
        Inl e \<Rightarrow> Inl e
      | Inr st' \<Rightarrow>
          train_loop_multi pf price_paths strike_price discount_factor poly_degree steps st')"

definition total_steps_of :: "matrix \<Rightarrow> nat" where
  "total_steps_of price_paths = (case price_paths of [] \<Rightarrow> 0 | row # _ \<Rightarrow> length row)"

definition longstaff_schwartz_train_multi ::
  "polyfit \<Rightarrow> matrix \<Rightarrow> real \<Rightarrow> real \<Rightarrow> real \<Rightarrow> int \<Rightarrow> error + vec option list" where
  "longstaff_schwartz_train_multi pf price_paths strike_price risk_free_rate maturity poly_degree =
     (let exercise_steps = int (total_steps_of price_paths) - 1
      in if list_ex (\<lambda>param. param \<le> 0) [strike_price, maturity] \<or> poly_degree < 0
         then Inl InvalidParameter
         else if exercise_steps = 0 then Inl ZeroDivisionError
         else
           let dt = maturity / real_of_int exercise_steps;
               discount_factor = exp (- risk_free_rate * dt)
           in case bermudan_max_call_payoff
                     (map (\<lambda>row. drop (length row - 1) row) price_paths) strike_price of
                Inl e \<Rightarrow> Inl e
              | Inr value_func \<Rightarrow>
                  (case train_loop_multi pf price_paths strike_price discount_factor
                          (nat poly_degree) (rev [1..<nat exercise_steps]) (value_func, []) of
                     Inl e \<Rightarrow> Inl e
                   | Inr st \<Rightarrow> Inr (rev (snd st))))"

definition evaluate_step ::
  "matrix \<Rightarrow> real \<Rightarrow> vec option list \<Rightarrow> nat \<Rightarrow> vec \<Rightarrow> error + vec" where
  "evaluate_step price_paths strike_price coefficients step value_func =
     (case coefficients ! (step - 1) of
        None \<Rightarrow> Inr value_func
      | Some c \<Rightarrow>
          let current_prices = map (\<lambda>row. row ! step) price_paths;
              continuation = map (polyval c) current_prices
          in (case bermudan_max_call_payoff (map (\<lambda>p. [p]) current_prices) strike_price of
                Inl e \<Rightarrow> Inl e
              | Inr exercise \<Rightarrow>
                  Inr (np_where (np_greater exercise continuation) exercise value_func)))"

fun evaluate_loop ::
  "matrix \<Rightarrow> real \<Rightarrow> vec option list \<Rightarrow> nat list \<Rightarrow> vec \<Rightarrow> error + vec" where
  "evaluate_loop price_paths strike_price coefficients [] value_func = Inr value_func"
| "evaluate_loop price_paths strike_price coefficients (step # steps) value_func =
     (case evaluate_step price_paths strike_price coefficients step value_func of
        Inl e \<Rightarrow> Inl e
      | Inr v \<Rightarrow> evaluate_loop price_paths strike_price coefficients steps v)"

definition longstaff_schwartz_evaluate ::
  "matrix \<Rightarrow> real \<Rightarrow> real \<Rightarrow> real \<Rightarrow> vec option list \<Rightarrow> error + real" where
  "longstaff_schwartz_evaluate price_paths strike_price risk_free_rate maturity coefficients =
     (let exercise_steps = int (total_steps_of price_paths) - 1
      in if int (length coefficients) \<noteq> exercise_steps - 1 then Inl CoefficientMismatch
         else if exercise_steps = 0 then Inl ZeroDivisionError
         else
           let dt = maturity / real_of_int exercise_steps
           in case bermudan_max_call_payoff
                     (map (\<lambda>row. drop (length row - 1) row) price_paths) strike_price of
                Inl e \<Rightarrow> Inl e
              | Inr value_func \<Rightarrow>
                  (case evaluate_loop price_paths strike_price coefficients
                          (rev [1..<nat exercise_steps]) value_func of
                     Inl e \<Rightarrow> Inl e
                   | Inr v \<Rightarrow> Inr (np_mean v * exp (- risk_free_rate * dt))))"

subsection \<open>The notebook's pricing cell\<close>

text \<open>
  The third cell: simulate training paths, train, simulate test paths, evaluate. The
  random state left by the first simulation is the one the second starts from.
\<close>

definition lsm_price ::
  "'g np_random \<Rightarrow> polyfit \<Rightarrow> real \<Rightarrow> real \<Rightarrow> real \<Rightarrow> real \<Rightarrow> real \<Rightarrow> int \<Rightarrow> real \<Rightarrow> pynum
     \<Rightarrow> pynum \<Rightarrow> int option \<Rightarrow> pynum \<Rightarrow> int option \<Rightarrow> 'g \<Rightarrow> error + real" where
  "lsm_price rng pf S0 r dividend sigma K degree T M I_train seed_train I_test seed_test g =
     (case simulate_gbm rng S0 r dividend sigma T M I_train seed_train g of
        Inl e \<Rightarrow> Inl e
      | Inr (trained_s, g1) \<Rightarrow>
          (case longstaff_schwartz_train pf trained_s K r T degree of
             Inl e \<Rightarrow> Inl e
           | Inr coeffs \<Rightarrow>
               (case simulate_gbm rng S0 r dividend sigma T M I_test seed_test g1 of
                  Inl e \<Rightarrow> Inl e
                | Inr (tested_s, g2) \<Rightarrow> longstaff_schwartz_test tested_s K r T coeffs)))"

subsection \<open>Notions used to state the properties\<close>

text \<open>
  The entry that the training pass at date \<open>t\<close> appends when it arrives there with the
  value vector \<open>V\<close>: the no-fit marker when no path is in the money, else the fit.
\<close>

definition train_entry ::
  "polyfit \<Rightarrow> matrix \<Rightarrow> real \<Rightarrow> real \<Rightarrow> nat \<Rightarrow> nat \<Rightarrow> vec \<Rightarrow> vec option" where
  "train_entry pf S K discount degree t V =
     (let in_the_money = map (\<lambda>p. p > K) (S ! t)
      in if list_ex (\<lambda>p. p > K) (S ! t)
         then Some (pf (mask_select (S ! t) in_the_money)
                       (map (\<lambda>v. v * discount) (mask_select V in_the_money)) degree)
         else None)"

text \<open>The one-step discount factor \<^verbatim>\<open>np.exp(-r * dt)\<close> of a path array with \<open>M + 1\<close> dates.\<close>

definition discount_of :: "matrix \<Rightarrow> real \<Rightarrow> real \<Rightarrow> real" where
  "discount_of S r T = exp (- r * (T / real_of_int (int (length S) - 1)))"

text \<open>
  The value vector with which the training pass arrives at date \<open>t - 1\<close>: the terminal
  payoff after the dates \<open>M - 1, ..., t\<close> have been processed.
\<close>

definition train_value ::
  "polyfit \<Rightarrow> matrix \<Rightarrow> real \<Rightarrow> real \<Rightarrow> real \<Rightarrow> int \<Rightarrow> nat \<Rightarrow> vec" where
  "train_value pf S K r T degree t =
     fst (train_loop pf S K (discount_of S r T) (nat degree) (rev [t..<length S - 1])
            (call_payoff (last S) K, []))"

text \<open>The date-major view of a path-major array: row \<open>t\<close> is \<^verbatim>\<open>price_paths[:, t]\<close>.\<close>

definition columns :: "matrix \<Rightarrow> matrix" where
  "columns price_paths =
     map (\<lambda>t. map (\<lambda>row. row ! t) price_paths) [0..<total_steps_of price_paths]"

text \<open>
  Instances of the numpy parameters, for evaluating the functions on concrete inputs.
  At degree 0 the least-squares polynomial is the mean of \<open>Y\<close>, which is what
  \<open>mean_fit\<close> returns; at a higher degree it pads the higher coefficients with zeros and
  only has the shape of a fit. The generator \<open>counter_rng\<close> keeps a counter as its state
  and fills every array it draws with the counter's value.
\<close>

definition mean_fit :: polyfit where
  "mean_fit X Y degree = replicate degree 0 @ [np_mean Y]"

definition counter_rng :: "nat np_random" where
  "counter_rng =
     \<lparr> np_seed = nat,
       np_standard_normal = (\<lambda>m i g. (replicate m (replicate i (real g)), Suc g)),
       np_randn = (\<lambda>m i g. (replicate m (replicate i (real g)), Suc g)) \<rparr>"

text \<open>A generator returns arrays of the shape it is asked for.\<close>

definition rng_shaped :: "'g np_random \<Rightarrow> bool" where
  "rng_shaped rng =
     (\<forall>m i g. length (fst (np_standard_normal rng m i g)) = m
            \<and> list_all (\<lambda>row. length row = i) (fst (np_standard_normal rng m i g))
            \<and> length (fst (np_randn rng m i g)) = m
            \<and> list_all (\<lambda>row. length row = i) (fst (np_randn rng m i g)))"

text \<open>
  The entry of date \<open>t\<close> as the backward induction of train produces it: fitted (or not)
  on the value vector the induction has after the dates \<open>M - 1, ..., t + 1\<close>.
\<close>

definition trained_entry ::
  "polyfit \<Rightarrow> matrix \<Rightarrow> real \<Rightarrow> real \<Rightarrow> real \<Rightarrow> int \<Rightarrow> nat \<Rightarrow> vec option" where
  "trained_entry pf S K r T degree t =
     train_entry pf S K (discount_of S r T) (nat degree) t (train_value pf S K r T degree (Suc t))"

text \<open>
  The evaluation pass in the words of the specification. At a date, a path with price
  \<open>p\<close> and held value \<open>v\<close> takes the exercise payoff when that is strictly greater than
  the polynomial's value at \<open>p\<close>, and keeps \<open>v\<close> otherwise; a date with the no-fit marker
  is skipped. The dates are visited from \<open>M - 1\<close> down to \<open>1\<close>, each with the entry of its
  own date; date \<open>0\<close> is not visited.
\<close>

definition exercise_rule :: "real \<Rightarrow> vec \<Rightarrow> real \<Rightarrow> real \<Rightarrow> real" where
  "exercise_rule K c p v = (if max (p - K) 0 > polyval c p then max (p - K) 0 else v)"

definition spec_apply :: "real \<Rightarrow> vec option \<Rightarrow> vec \<Rightarrow> vec \<Rightarrow> vec" where
  "spec_apply K entry prices V =
     (case entry of
        None \<Rightarrow> V
      | Some c \<Rightarrow> map (\<lambda>(p, v). exercise_rule K c p v) (zip prices V))"

fun spec_backward :: "(nat \<Rightarrow> vec option) \<Rightarrow> matrix \<Rightarrow> real \<Rightarrow> nat \<Rightarrow> vec \<Rightarrow> vec" where
  "spec_backward entry S K 0 V = V"
| "spec_backward entry S K (Suc t) V =
     (if t = 0 then V else spec_backward entry S K t (spec_apply K (entry t) (S ! t) V))"









text \<open>
  The path array of a deterministic price: row \<open>t\<close> holds \<open>s0 * e ^ t\<close> for each of the
  \<open>i\<close> paths. A seed numpy accepts: none, or an integer in \<open>[0, 2^32)\<close>.
\<close>

definition det_paths :: "real \<Rightarrow> real \<Rightarrow> nat \<Rightarrow> nat \<Rightarrow> matrix" where
  "det_paths s0 e m i = map (\<lambda>t. replicate i (s0 * e ^ t)) [0..<Suc m]"

definition seed_ok :: "int option \<Rightarrow> bool" where
  "seed_ok sd = (case sd of None \<Rightarrow> True | Some s \<Rightarrow> 0 \<le> s \<and> s < 2 ^ 32)"

section \<open>Properties\<close>

subsection \<open>The training loop\<close>

lemma mask_select_itm: "mask_select xs (map P xs) = filter P xs"
  by (induction xs) (simp_all add: mask_select_def)

lemma filter_empty_list_ex: "(filter P xs = []) = (\<not> list_ex P xs)"
  by (induction xs) simp_all

lemma train_step_snd:
  "snd (train_step pf S K d deg t st) = snd st @ [train_entry pf S K d deg t (fst st)]"
  by (simp add: train_step_def train_entry_def Let_def mask_select_itm filter_empty_list_ex)

lemma train_step_fst_none:
  "\<not> list_ex (\<lambda>p. p > K) (S ! t) \<Longrightarrow> fst (train_step pf S K d deg t st) = fst st"
  by (simp add: train_step_def Let_def mask_select_itm filter_empty_list_ex)

lemma train_loop_append:
  "train_loop pf S K d deg (ts @ us) st
     = train_loop pf S K d deg us (train_loop pf S K d deg ts st)"
  by (induction ts arbitrary: st) simp_all

lemma train_loop_snd_ext:
  "\<exists>ext. snd (train_loop pf S K d deg ts st) = snd st @ ext \<and> length ext = length ts"
proof (induction ts arbitrary: st)
  case Nil
  show ?case by simp
next
  case (Cons t ts)
  obtain ext where e: "snd (train_loop pf S K d deg ts (train_step pf S K d deg t st))
      = snd (train_step pf S K d deg t st) @ ext" "length ext = length ts"
    using Cons.IH by blast
  show ?case
    by (rule exI [of _ "train_entry pf S K d deg t (fst st) # ext"]) (simp add: e train_step_snd)
qed

lemma train_loop_length:
  "length (snd (train_loop pf S K d deg ts st)) = length (snd st) + length ts"
  using train_loop_snd_ext [of pf S K d deg ts st] by auto

lemma rev_upt_split:
  assumes "Suc 0 \<le> t" "t < M"
  shows "rev [Suc 0..<M] = rev [Suc t..<M] @ t # rev [Suc 0..<t]"
proof -
  have "[Suc 0..<M] = [Suc 0..<t] @ [t..<M]"
    using assms by (metis less_imp_le_nat upt_add_eq_append le_add_diff_inverse)
  also have "[t..<M] = t # [Suc t..<M]"
    using assms by (simp add: upt_conv_Cons)
  finally show ?thesis by simp
qed

text \<open>Position \<open>t - 1\<close> of the reversed list holds what date \<open>t\<close> appended.\<close>

lemma train_loop_nth:
  assumes "Suc 0 \<le> t" "t < M"
  shows "rev (snd (train_loop pf S K d deg (rev [Suc 0..<M]) (V, []))) ! (t - 1)
       = train_entry pf S K d deg t (fst (train_loop pf S K d deg (rev [Suc t..<M]) (V, [])))"
proof -
  define stA where "stA = train_loop pf S K d deg (rev [Suc t..<M]) (V, [])"
  define e where "e = train_entry pf S K d deg t (fst stA)"
  have full: "train_loop pf S K d deg (rev [Suc 0..<M]) (V, [])
      = train_loop pf S K d deg (rev [Suc 0..<t]) (train_step pf S K d deg t stA)"
    using rev_upt_split [OF assms] by (simp add: train_loop_append stA_def)
  obtain B where B: "snd (train_loop pf S K d deg (rev [Suc 0..<t]) (train_step pf S K d deg t stA))
      = snd (train_step pf S K d deg t stA) @ B" "length B = length (rev [Suc 0..<t])"
    using train_loop_snd_ext by blast
  have "rev (snd (train_loop pf S K d deg (rev [Suc 0..<M]) (V, []))) = rev B @ e # rev (snd stA)"
    by (simp add: full B train_step_snd e_def)
  moreover have "length (rev B) = t - 1" using B by simp
  ultimately show ?thesis
    by (simp add: nth_append e_def stA_def)
qed

lemma train_returns:
  assumes "length S = Suc M" "1 \<le> M" "0 < K" "0 < T" "0 \<le> degree"
  shows "longstaff_schwartz_train pf S K r T degree
     = Inr (rev (snd (train_loop pf S K (discount_of S r T) (nat degree) (rev [Suc 0..<M])
                        (call_payoff (last S) K, []))))"
proof -
  have "S \<noteq> []" using assms by auto
  moreover have "int (length S) - 1 = int M" using assms by simp
  ultimately show ?thesis
    using assms by (simp add: longstaff_schwartz_train_def discount_of_def Let_def)
qed

lemma train_Inr_D:
  assumes "longstaff_schwartz_train pf S K r T degree = Inr cs"
  shows "cs = rev (snd (train_loop pf S K (discount_of S r T) (nat degree)
                        (rev [Suc 0..<length S - 1]) (call_payoff (last S) K, [])))"
proof -
  have "nat (int (length S) - 1) = length S - 1" by simp
  then show ?thesis
    using assms
    by (auto simp add: longstaff_schwartz_train_def discount_of_def Let_def split: if_splits)
qed

lemma train_nth:
  assumes "longstaff_schwartz_train pf S K r T degree = Inr cs" "1 \<le> t" "Suc t < length S"
  shows "cs ! (t - 1) = train_entry pf S K (discount_of S r T) (nat degree) t
                          (train_value pf S K r T degree (Suc t))"
proof -
  have "t < length S - 1" using assms by simp
  then show ?thesis
    using train_loop_nth [of t "length S - 1"] assms(2)
    by (simp add: train_Inr_D [OF assms(1)] train_value_def)
qed

lemma train_length:
  assumes "longstaff_schwartz_train pf S K r T degree = Inr cs"
  shows "length cs = length S - 2"
  by (simp add: train_Inr_D [OF assms] train_loop_length)

lemma train_value_skip:
  assumes "Suc t < length S" "\<not> list_ex (\<lambda>p. p > K) (S ! t)"
  shows "train_value pf S K r T degree t = train_value pf S K r T degree (Suc t)"
proof -
  have "[t..<length S - 1] = t # [Suc t..<length S - 1]"
    using assms(1) by (simp add: upt_conv_Cons)
  then show ?thesis
    by (simp add: train_value_def train_loop_append train_step_fst_none [OF assms(2)])
qed

subsection \<open>The evaluation loop\<close>

lemma np_where_spec:
  "np_where (np_greater (call_payoff ps K) (map (polyval c) ps)) (call_payoff ps K) V
     = map (\<lambda>(p, v). exercise_rule K c p v) (zip ps V)"
proof (induction ps arbitrary: V)
  case Nil
  show ?case by (simp add: np_where_def np_greater_def call_payoff_def)
next
  case (Cons p ps)
  show ?case
  proof (cases V)
    case Nil
    then show ?thesis by (simp add: np_where_def np_greater_def call_payoff_def)
  next
    case (Cons v vs)
    then show ?thesis
      using Cons.IH [of vs]
      by (simp add: np_where_def np_greater_def call_payoff_def exercise_rule_def)
  qed
qed

lemma test_step_spec: "test_step S K cs t V = spec_apply K (cs ! (t - 1)) (S ! t) V"
  by (simp add: test_step_def spec_apply_def Let_def np_where_spec split: option.splits)

lemma test_loop_spec:
  "test_loop S K cs (rev [Suc 0..<M]) V = spec_backward (\<lambda>t. cs ! (t - 1)) S K M V"
proof (induction M arbitrary: V)
  case 0
  show ?case by simp
next
  case (Suc M)
  show ?case
  proof (cases "M = 0")
    case True
    then show ?thesis by simp
  next
    case False
    then have "rev [Suc 0..<Suc M] = M # rev [Suc 0..<M]" by simp
    then show ?thesis using False Suc.IH by (simp add: test_step_spec)
  qed
qed

lemma spec_backward_cong:
  "(\<And>t. Suc 0 \<le> t \<Longrightarrow> t < M \<Longrightarrow> e1 t = e2 t)
     \<Longrightarrow> spec_backward e1 S K M V = spec_backward e2 S K M V"
proof (induction M arbitrary: V)
  case 0
  show ?case by simp
next
  case (Suc M)
  show ?case
  proof (cases "M = 0")
    case True
    then show ?thesis by simp
  next
    case False
    have "e1 M = e2 M" using False by (intro Suc.prems) simp_all
    moreover have "spec_backward e1 S K M W = spec_backward e2 S K M W" for W
      by (rule Suc.IH) (simp add: Suc.prems)
    ultimately show ?thesis using False by simp
  qed
qed

lemma test_returns:
  assumes "int (length cs) = int (length S) - 2" 
  shows "longstaff_schwartz_test S K r T cs
       = Inr (np_mean (spec_backward (\<lambda>t. cs ! (t - 1)) S K (length S - 1)
                         (call_payoff (last S) K))
              * exp (- r * (T / real (length S - 1))))"
proof -
  have len: "2 \<le> length S" using assms by simp
  then have ne: "S \<noteq> []" by auto
  have m: "int (length S) - 1 = int (length S - 1)" using len by simp
  show ?thesis
    using assms len ne
    by (simp add: longstaff_schwartz_test_def Let_def m test_loop_spec del: of_nat_diff)
qed

subsection \<open>The path-major engine refines the date-major one\<close>

lemma bermudan_single:
  "bermudan_max_call_payoff (map (\<lambda>p. [p]) xs) K = Inr (call_payoff xs K)"
  by (auto simp add: bermudan_max_call_payoff_def call_payoff_def list_ex_iff comp_def)

lemma train_step_multi_eq:
  "S ! t = map (\<lambda>row. row ! t) P
     \<Longrightarrow> train_step_multi pf P K d deg t st = Inr (train_step pf S K d deg t st)"
  by (simp add: train_step_multi_def train_step_def Let_def bermudan_single del: map_map)

lemma train_loop_multi_eq:
  "list_all (\<lambda>t. S ! t = map (\<lambda>row. row ! t) P) ts
     \<Longrightarrow> train_loop_multi pf P K d deg ts st = Inr (train_loop pf S K d deg ts st)"
proof (induction ts arbitrary: st)
  case Nil
  show ?case by simp
next
  case (Cons t ts)
  have "train_step_multi pf P K d deg t st = Inr (train_step pf S K d deg t st)"
    using Cons.prems by (intro train_step_multi_eq) simp
  then show ?case using Cons by simp
qed

lemma length_columns: "length (columns P) = total_steps_of P"
  by (simp add: columns_def)

lemma columns_nth: "t < total_steps_of P \<Longrightarrow> columns P ! t = map (\<lambda>row. row ! t) P"
  by (simp add: columns_def)

lemma total_steps_rect:
  "P \<noteq> [] \<Longrightarrow> list_all (\<lambda>row. length row = n) P \<Longrightarrow> total_steps_of P = n"
  by (cases P) (simp_all add: total_steps_of_def)

lemma drop_last_one: "length xs = Suc n \<Longrightarrow> drop n xs = [xs ! n]"
  by (metis Cons_nth_drop_Suc drop_all lessI order_refl)

lemma terminal_multi:
  assumes "P \<noteq> []" "list_all (\<lambda>row. length row = Suc n) P"
  shows "bermudan_max_call_payoff (map (\<lambda>row. drop (length row - Suc 0) row) P) K
       = Inr (call_payoff (last (columns P)) K)"
proof -
  have ts: "total_steps_of P = Suc n" using assms by (rule total_steps_rect)
  have "map (\<lambda>row. drop (length row - Suc 0) row) P = map (\<lambda>p. [p]) (map (\<lambda>row. row ! n) P)"
    using assms(2) by (induction P) (simp_all add: drop_last_one)
  moreover have "last (columns P) = map (\<lambda>row. row ! n) P"
    using columns_nth [of n P] length_columns [of P] ts
    by (metis diff_Suc_1 lessI last_conv_nth length_0_conv nat.distinct(1))
  ultimately show ?thesis by (simp only: bermudan_single)
qed

lemma train_multi_eq:
  assumes "P \<noteq> []" "list_all (\<lambda>row. length row = Suc n) P"
  shows "longstaff_schwartz_train_multi pf P K r T degree
       = longstaff_schwartz_train pf (columns P) K r T degree"
proof -
  have ts: "total_steps_of P = Suc n" using assms by (rule total_steps_rect)
  have loop: "train_loop_multi pf P K d deg (rev [Suc 0..<n]) st
      = Inr (train_loop pf (columns P) K d deg (rev [Suc 0..<n]) st)" for d deg st
    by (rule train_loop_multi_eq) (simp add: list_all_iff columns_nth ts)
  have ne: "columns P \<noteq> []" using length_columns [of P] ts by auto
  show ?thesis
    by (simp add: longstaff_schwartz_train_multi_def longstaff_schwartz_train_def Let_def
        length_columns ts terminal_multi [OF assms] loop ne)
qed

lemma evaluate_step_eq:
  "S ! t = map (\<lambda>row. row ! t) P
     \<Longrightarrow> evaluate_step P K cs t V = Inr (test_step S K cs t V)"
  by (simp add: evaluate_step_def test_step_def Let_def bermudan_single
      split: option.splits del: map_map)

lemma evaluate_loop_eq:
  "list_all (\<lambda>t. S ! t = map (\<lambda>row. row ! t) P) ts
     \<Longrightarrow> evaluate_loop P K cs ts V = Inr (test_loop S K cs ts V)"
proof (induction ts arbitrary: V)
  case Nil
  show ?case by simp
next
  case (Cons t ts)
  have "evaluate_step P K cs t V = Inr (test_step S K cs t V)"
    using Cons.prems by (intro evaluate_step_eq) simp
  then show ?case using Cons by simp
qed

lemma evaluate_eq:
  assumes "P \<noteq> []" "list_all (\<lambda>row. length row = Suc n) P"
  shows "longstaff_schwartz_evaluate P K r T cs = longstaff_schwartz_test (columns P) K r T cs"
proof -
  have ts: "total_steps_of P = Suc n" using assms by (rule total_steps_rect)
  have loop: "evaluate_loop P K cs (rev [Suc 0..<n]) V
      = Inr (test_loop (columns P) K cs (rev [Suc 0..<n]) V)" for V
    by (rule evaluate_loop_eq) (simp add: list_all_iff columns_nth ts)
  have ne: "columns P \<noteq> []" using length_columns [of P] ts by auto
  show ?thesis
    by (simp add: longstaff_schwartz_evaluate_def longstaff_schwartz_test_def Let_def
        length_columns ts terminal_multi [OF assms] loop ne)
qed

subsection \<open>Claims about the two engines\<close>

text \<open>
  Claim C5. For a path array with \<open>M + 1\<close> dates and a coefficient series whose length is
  not \<open>M - 1\<close>, shorter or longer, evaluation fails with the coefficient-mismatch error,
  in the single-asset \<^verbatim>\<open>longstaff_schwartz_test\<close> and in the multi-asset
  \<^verbatim>\<open>longstaff_schwartz_evaluate\<close>. The result is the error whatever the strike, rate,
  maturity and prices are: the check comes before any discounting, polynomial evaluation
  or payoff, and no price is returned.
\<close>

theorem evaluate_rejects_mismatch:
  "(int (length S) = M + 1 \<and> int (length coefficients) \<noteq> M - 1
      \<longrightarrow> longstaff_schwartz_test S K r T coefficients = Inl CoefficientMismatch)
   \<and> (int (total_steps_of P) = M + 1 \<and> int (length coefficients) \<noteq> M - 1
      \<longrightarrow> longstaff_schwartz_evaluate P K r T coefficients = Inl CoefficientMismatch)"
  by (simp add: longstaff_schwartz_test_def longstaff_schwartz_evaluate_def Let_def)

theorem evaluate_rejects_mismatch_witness:
  "longstaff_schwartz_test [[1], [2], [3], [4]] 2 0 1 [None] = Inl CoefficientMismatch
   \<and> longstaff_schwartz_evaluate [[1, 2, 3, 4]] 2 0 1 [None] = Inl CoefficientMismatch
   \<and> longstaff_schwartz_test [[1], [2], [3], [4]] 2 0 1 [None, None, None]
       = Inl CoefficientMismatch
   \<and> longstaff_schwartz_evaluate [[1, 2, 3, 4]] 2 0 1 [None, None, None]
       = Inl CoefficientMismatch"
  using evaluate_rejects_mismatch [of "[[1], [2], [3], [4]]" 3 "[None]" 2 0 1 "[[1, 2, 3, 4]]"]
    evaluate_rejects_mismatch
      [of "[[1], [2], [3], [4]]" 3 "[None, None, None]" 2 0 1 "[[1, 2, 3, 4]]"]
  by (simp add: total_steps_of_def)

text \<open>
  Claim C6. For a training path array with \<open>M + 1\<close> dates, \<open>M \<ge> 1\<close>, and valid
  parameters (positive strike and maturity, non-negative degree; any rate), train returns
  a coefficient series of length exactly \<open>M - 1\<close>, whatever the degree, the fitting routine
  and the prices are (so also when a date has no path in the money), in the single-asset
  and in the multi-asset engine.
\<close>

theorem train_series_length:
  assumes "1 \<le> M" "0 < K" "0 < T" "0 \<le> degree"
    and "length S = Suc M" and "P \<noteq> []" "list_all (\<lambda>row. length row = Suc M) P"
  shows "(\<exists>cs. longstaff_schwartz_train pf S K r T degree = Inr cs \<and> length cs = M - 1)
       \<and> (\<exists>cs. longstaff_schwartz_train_multi pf P K r T degree = Inr cs \<and> length cs = M - 1)"
proof -
  have single: "\<exists>cs. longstaff_schwartz_train pf S K r T degree = Inr cs \<and> length cs = M - 1"
    if "length S = Suc M" for S
    using train_returns [OF that assms(1-4)] by (simp add: train_loop_length)
  have "length (columns P) = Suc M"
    using assms(6,7) by (simp add: length_columns total_steps_rect)
  then show ?thesis
    using single [OF assms(5)] single [of "columns P"] train_multi_eq [OF assms(6,7)] by simp
qed

theorem train_series_length_witness:
  "(\<exists>cs. longstaff_schwartz_train mean_fit [[1], [1], [5]] 2 0 1 5 = Inr cs \<and> length cs = 1)
   \<and> (\<exists>cs. longstaff_schwartz_train_multi mean_fit [[1, 1, 5]] 2 0 1 5 = Inr cs \<and> length cs = 1)"
  using train_series_length [where M = 2 and K = 2 and T = 1 and degree = 5
      and S = "[[1], [1], [5]]" and P = "[[1, 1, 5]]" and pf = mean_fit and r = 0]
  by simp

lemma eval_train_a:
  "longstaff_schwartz_train mean_fit [[1], [3], [1], [5]] 2 0 1 0 = Inr [Some [3], None]"
  by (simp add: longstaff_schwartz_train_def train_step_def Let_def call_payoff_def
      mask_select_def mean_fit_def np_mean_def polyval_def np_where_def np_greater_def upt_rec)

lemma eval_train_d:
  "longstaff_schwartz_train_multi mean_fit [[1, 3, 1, 5]] 2 0 1 0 = Inr [Some [3], None]"
  by (simp add: longstaff_schwartz_train_multi_def train_step_multi_def Let_def call_payoff_def
      mask_select_def mean_fit_def np_mean_def polyval_def np_where_def np_greater_def upt_rec
      total_steps_of_def bermudan_max_call_payoff_def)

text \<open>
  Claim C7. The series train returns is in chronological order: for every interior date
  \<open>t\<close> in \<open>1..M-1\<close> its entry at position \<open>t - 1\<close> is the entry (coefficient vector or
  no-fit marker) that the backward induction produced at date \<open>t\<close>, from the value
  vector it had after the dates \<open>M-1, ..., t+1\<close>. Evaluation applies exactly that entry
  at date \<open>t\<close>: its step at date \<open>t\<close> is the exercise rule with the polynomial trained at
  date \<open>t\<close>, on the test prices of date \<open>t\<close>, and the price that
  \<^verbatim>\<open>longstaff_schwartz_test\<close> returns on the trained series is the discounted mean of
  the value vector obtained by visiting the dates \<open>M-1, ..., 1\<close> in this way, each with
  the entry trained at its own date. The same holds for \<^verbatim>\<open>longstaff_schwartz_evaluate\<close>
  on the series of the multi-asset train. The evaluation functions take no fitting
  routine, so nothing is fitted again.
\<close>

theorem series_chronological:
  assumes "longstaff_schwartz_train pf S K r T degree = Inr cs"
    and "1 \<le> t" "Suc t < length S" "length S' = length S"
    and "longstaff_schwartz_train_multi pf P K r T degree = Inr cs'"
    and "P \<noteq> []" "list_all (\<lambda>row. length row = Suc n) P"
    and "P' \<noteq> []" "list_all (\<lambda>row. length row = Suc n) P'"
  shows "cs ! (t - 1) = trained_entry pf S K r T degree t
       \<and> test_step S' K cs t V = spec_apply K (trained_entry pf S K r T degree t) (S' ! t) V
       \<and> longstaff_schwartz_test S' K r T cs
           = Inr (np_mean (spec_backward (trained_entry pf S K r T degree) S' K (length S - 1)
                             (call_payoff (last S') K))
                  * exp (- r * (T / real (length S - 1))))
       \<and> longstaff_schwartz_evaluate P' K r T cs'
           = Inr (np_mean (spec_backward (trained_entry pf (columns P) K r T degree) (columns P') K n
                             (call_payoff (last (columns P')) K))
                  * exp (- r * (T / real n)))"
proof -
  have whole: "longstaff_schwartz_test S' K r T cs
           = Inr (np_mean (spec_backward (trained_entry pf S K r T degree) S' K (length S - 1)
                             (call_payoff (last S') K))
                  * exp (- r * (T / real (length S - 1))))"
    if tr: "longstaff_schwartz_train pf S K r T degree = Inr cs" and len: "length S' = length S"
    for S S' cs
  proof -
    have "S \<noteq> []" "int (length S) - 1 \<noteq> 0"
      using tr by (auto simp add: longstaff_schwartz_train_def Let_def split: if_splits)
    then have two: "2 \<le> length S"
      by (cases S) (simp_all add: Suc_le_eq)
    have lcs: "int (length cs) = int (length S') - 2"
      using train_length [OF tr] two len by simp
    have ent: "cs ! (u - 1) = trained_entry pf S K r T degree u"
      if "Suc 0 \<le> u" "u < length S - 1" for u
      using train_nth [OF tr, of u] that by (simp add: trained_entry_def)
    have "spec_backward (\<lambda>u. cs ! (u - 1)) S' K (length S - 1) W
        = spec_backward (trained_entry pf S K r T degree) S' K (length S - 1) W" for W
      by (rule spec_backward_cong) (rule ent)
    then show ?thesis
      using test_returns [OF lcs, of K r T] len by simp
  qed
  have a: "cs ! (t - 1) = trained_entry pf S K r T degree t"
    using train_nth [OF assms(1-3)] by (simp add: trained_entry_def)
  have b: "test_step S' K cs t V = spec_apply K (trained_entry pf S K r T degree t) (S' ! t) V"
    by (simp only: test_step_spec a)
  have c: "longstaff_schwartz_train pf (columns P) K r T degree = Inr cs'"
    using train_multi_eq [OF assms(6,7)] assms(5) by simp
  have lens: "length (columns P') = length (columns P)" "length (columns P) - 1 = n"
    using assms(6-9) by (simp_all add: length_columns total_steps_rect)
  have d: "longstaff_schwartz_evaluate P' K r T cs'
           = Inr (np_mean (spec_backward (trained_entry pf (columns P) K r T degree) (columns P') K n
                             (call_payoff (last (columns P')) K))
                  * exp (- r * (T / real n)))"
    using whole [OF c lens(1)] evaluate_eq [OF assms(8,9)] lens(2) by simp
  show ?thesis using a b whole [OF assms(1,4)] d by blast
qed

theorem series_chronological_witness:
  "trained_entry mean_fit [[1], [3], [1], [5]] 2 0 1 0 1 = Some [3]
   \<and> test_step [[1], [7], [1], [5]] 2 [Some [3], None] 1 [3] = [5]
   \<and> longstaff_schwartz_test [[1], [7], [1], [5]] 2 0 1 [Some [3], None] = Inr 5
   \<and> spec_backward (trained_entry mean_fit [[1], [3], [1], [5]] 2 0 1 0)
         [[1], [7], [1], [5]] 2 3 [3] = [5]
   \<and> longstaff_schwartz_evaluate [[1, 7, 1, 5]] 2 0 1 [Some [3], None] = Inr 5"
  using series_chronological [where pf = mean_fit and S = "[[1], [3], [1], [5]]" and K = 2
      and r = 0 and T = 1 and degree = 0 and cs = "[Some [3], None]" and t = 1
      and S' = "[[1], [7], [1], [5]]" and P = "[[1, 3, 1, 5]]" and cs' = "[Some [3], None]"
      and n = 3 and P' = "[[1, 7, 1, 5]]" and V = "[3]"]
    eval_train_a eval_train_d
  by (simp add: trained_entry_def train_entry_def train_value_def discount_of_def train_step_def
      Let_def call_payoff_def mask_select_def mean_fit_def np_mean_def polyval_def
      upt_rec spec_apply_def exercise_rule_def columns_def total_steps_of_def eval_nat_numeral)

text \<open>
  Claim C8. At an interior date where no training path is strictly above the strike, the
  training step appends the no-fit marker and leaves the value vector as it was; the
  returned series has the marker at that date's position and the value vector the
  induction carries on is the one it arrived with. At a date whose series entry is the
  no-fit marker, the evaluation step returns the value vector unchanged.
\<close>

theorem no_fit_date_unchanged:
  "(\<not> list_ex (\<lambda>p. p > K) (S ! t)
      \<longrightarrow> train_step pf S K discount deg t (V, coefficients) = (V, coefficients @ [None]))
   \<and> (longstaff_schwartz_train pf S K r T degree = Inr cs \<and> 1 \<le> t \<and> Suc t < length S
        \<and> \<not> list_ex (\<lambda>p. p > K) (S ! t)
      \<longrightarrow> cs ! (t - 1) = None
          \<and> train_value pf S K r T degree t = train_value pf S K r T degree (Suc t))
   \<and> (series ! (t - 1) = None \<longrightarrow> test_step S' K series t V' = V')"
proof (intro conjI impI)
  assume "\<not> list_ex (\<lambda>p. p > K) (S ! t)"
  then show "train_step pf S K discount deg t (V, coefficients) = (V, coefficients @ [None])"
    by (simp add: train_step_def Let_def mask_select_itm filter_empty_list_ex)
next
  assume a: "longstaff_schwartz_train pf S K r T degree = Inr cs \<and> 1 \<le> t \<and> Suc t < length S
        \<and> \<not> list_ex (\<lambda>p. p > K) (S ! t)"
  then show "cs ! (t - 1) = None"
    using train_nth [of pf S K r T degree cs t] by (simp add: train_entry_def)
  from a show "train_value pf S K r T degree t = train_value pf S K r T degree (Suc t)"
    by (intro train_value_skip) simp_all
next
  assume "series ! (t - 1) = None"
  then show "test_step S' K series t V' = V'"
    by (simp add: test_step_def)
qed

theorem no_fit_date_unchanged_witness:
  "train_step mean_fit [[1], [3], [1], [5]] 2 1 0 2 ([3], []) = ([3], [None])
   \<and> [Some [3], None] ! (2 - 1) = None
   \<and> train_value mean_fit [[1], [3], [1], [5]] 2 0 1 0 2
       = train_value mean_fit [[1], [3], [1], [5]] 2 0 1 0 (Suc 2)
   \<and> test_step [[1], [4], [9], [5]] 2 [Some [3], None] 2 [3] = [3]"
  using no_fit_date_unchanged [where K = 2 and S = "[[1], [3], [1], [5]]" and t = 2
      and pf = mean_fit and discount = 1 and deg = 0 and V = "[3]" and coefficients = "[]"
      and r = 0 and T = 1 and degree = 0 and cs = "[Some [3], None]"
      and series = "[Some [3], None]" and S' = "[[1], [4], [9], [5]]" and V' = "[3]"]
    eval_train_a
  by simp

text \<open>
  Claim C10. Given that the fitting routine returns \<open>degree + 1\<close> coefficients (as
  \<^verbatim>\<open>np.polyfit\<close> does), the entry train records for an interior date is a coefficient
  vector of length \<open>degree + 1\<close> as soon as one path is in the money at that date, however
  few such paths there are, and it is the no-fit marker only when no path is in the
  money. This holds in the single-asset and in the multi-asset engine.
\<close>

theorem fit_iff_in_the_money:
  assumes "\<forall>X Y. length (pf X Y (nat degree)) = nat degree + 1"
    and "1 \<le> t"
    and "longstaff_schwartz_train pf S K r T degree = Inr cs" "Suc t < length S"
    and "longstaff_schwartz_train_multi pf P K r T degree = Inr cs'"
        "P \<noteq> []" "list_all (\<lambda>row. length row = Suc n) P" "Suc t < Suc n"
  shows "(if list_ex (\<lambda>p. p > K) (S ! t)
          then \<exists>c. cs ! (t - 1) = Some c \<and> length c = nat degree + 1
          else cs ! (t - 1) = None)
       \<and> (if list_ex (\<lambda>row. row ! t > K) P
          then \<exists>c. cs' ! (t - 1) = Some c \<and> length c = nat degree + 1
          else cs' ! (t - 1) = None)"
proof -
  have single: "if list_ex (\<lambda>p. p > K) (S ! t)
          then \<exists>c. cs ! (t - 1) = Some c \<and> length c = nat degree + 1
          else cs ! (t - 1) = None"
    if "longstaff_schwartz_train pf S K r T degree = Inr cs" "Suc t < length S" for S cs
    using train_nth [OF that(1) assms(2) that(2)] assms(1) by (simp add: train_entry_def Let_def)
  have ts: "total_steps_of P = Suc n" using assms(6,7) by (rule total_steps_rect)
  have c: "longstaff_schwartz_train pf (columns P) K r T degree = Inr cs'"
    using train_multi_eq [OF assms(6,7)] assms(5) by simp
  have "columns P ! t = map (\<lambda>row. row ! t) P"
    using assms(8) ts by (simp add: columns_nth)
  then have "list_ex (\<lambda>p. p > K) (columns P ! t) = list_ex (\<lambda>row. row ! t > K) P"
    by (simp add: list_ex_iff)
  then show ?thesis
    using single [OF assms(3,4)] single [OF c] assms(8) ts by (simp add: length_columns)
qed

lemma eval_train_b:
  "longstaff_schwartz_train mean_fit [[1], [3], [5]] 2 0 1 4 = Inr [Some [0, 0, 0, 0, 3]]"
  by (simp add: longstaff_schwartz_train_def train_step_def Let_def call_payoff_def
      mask_select_def mean_fit_def np_mean_def polyval_def np_where_def np_greater_def upt_rec
      eval_nat_numeral)

lemma eval_train_c:
  "longstaff_schwartz_train_multi mean_fit [[1, 1, 5], [1, 2, 4]] 2 0 1 4 = Inr [None]"
  by (simp add: longstaff_schwartz_train_multi_def train_step_multi_def Let_def call_payoff_def
      mask_select_def mean_fit_def np_mean_def polyval_def np_where_def np_greater_def upt_rec
      total_steps_of_def bermudan_max_call_payoff_def)

theorem fit_iff_in_the_money_witness:
  "(\<exists>c. [Some [0, 0, 0, 0, 3]] ! (1 - 1) = Some c \<and> length c = nat 4 + 1)
   \<and> [None :: vec option] ! (1 - 1) = None"
  using fit_iff_in_the_money [where pf = mean_fit and degree = 4 and t = 1
      and S = "[[1], [3], [5]]" and K = 2 and r = 0 and T = 1 and cs = "[Some [0, 0, 0, 0, 3]]"
      and P = "[[1, 1, 5], [1, 2, 4]]" and cs' = "[None]" and n = 2]
    eval_train_b eval_train_c
  by (simp add: mean_fit_def)

subsection \<open>The value vector between dates\<close>

lemma exp_minus_one_bound: "(1::real) \<le> 20 * exp (- 1)"
proof -
  have "(1::real) = exp 1 * exp (- 1)" by (simp add: exp_minus)
  also have "\<dots> \<le> 3 * exp (- 1)" by (intro mult_right_mono exp_le) simp
  also have "\<dots> \<le> 20 * exp (- 1)" by simp
  finally show ?thesis .
qed

lemma np_where_nth:
  assumes "i < length V" "length ex = length V" "length cont = length V"
  shows "np_where (np_greater ex cont) ex V ! i = (if ex ! i > cont ! i then ex ! i else V ! i)"
  using assms by (simp add: np_where_def np_greater_def)

lemma train_step_value:
  assumes "list_ex (\<lambda>p. p > K) (S ! t)" "length V = length (S ! t)" "i < length V"
  shows "\<exists>coeff. fst (train_step pf S K discount deg t (V, cs)) ! i
     = (if max (S ! t ! i - K) 0 > polyval coeff (S ! t ! i) then max (S ! t ! i - K) 0 else V ! i)"
  using assms
  by (auto simp add: train_step_def Let_def mask_select_itm filter_empty_list_ex np_where_nth
      call_payoff_def)

lemma test_step_value:
  assumes "coefficients ! (t - 1) = Some c" "length V = length (S ! t)" "i < length V"
  shows "test_step S K coefficients t V ! i
     = (if max (S ! t ! i - K) 0 > polyval c (S ! t ! i) then max (S ! t ! i - K) 0 else V ! i)"
  using assms by (simp add: test_step_def Let_def np_where_nth call_payoff_def)

text \<open>
  Claim C1. The claim: at an interior date the new value of a path is the exercise payoff
  when that is strictly greater than the continuation value, and otherwise the value of
  the later date discounted by one step. The first half and the strictness hold
  (\<open>train_step_value\<close>, \<open>test_step_value\<close>). The second half does not: a path that is
  not exercised keeps the value of the later date as it is, the discount factor enters
  the regression target only. On the one-path array with prices 100, 101, 120, strike
  100, rate 1 and maturity 2 (one-step discount \<open>exp (-1)\<close>) the path is not exercised at
  date 1 and its value stays 20 in training and in evaluation, where the claim has
  \<open>20 * exp (-1)\<close>; the price is \<open>20 * exp (-1)\<close>, the maturity payoff discounted over
  one of its two periods.
\<close>

theorem held_value_not_discounted:
  "fst (train_step mean_fit [[100], [101], [120]] 100 (exp (- 1)) 0 1 ([20], [])) = [20]
   \<and> test_step [[100], [101], [120]] 100 [Some [1000]] 1 [20] = [20]
   \<and> longstaff_schwartz_train mean_fit [[100], [101], [120]] 100 1 2 0
       = Inr [Some [20 * exp (- 1)]]
   \<and> longstaff_schwartz_test [[100], [101], [120]] 100 1 2 [Some [20 * exp (- 1)]]
       = Inr (20 * exp (- 1))
   \<and> [20 :: real] \<noteq> [exp (- 1) * 20]"
  using exp_minus_one_bound
  by (simp add: longstaff_schwartz_train_def longstaff_schwartz_test_def train_step_def
      test_step_def Let_def call_payoff_def mask_select_def mean_fit_def np_mean_def polyval_def
      np_where_def np_greater_def upt_rec)

subsection \<open>The simulators\<close>

lemma simulate_gbm_seeded:
  "simulate_gbm rng S0 r q sigma T M I (Some s) g = simulate_gbm rng S0 r q sigma T M I (Some s) g'"
  by (simp add: simulate_gbm_def)

lemma simulate_gbm_multi_seeded:
  "s \<noteq> 0 \<Longrightarrow>
   simulate_gbm_multi rng d r q sigma s0 T dt n (Some s) g
     = simulate_gbm_multi rng d r q sigma s0 T dt n (Some s) g'"
  by (simp add: simulate_gbm_multi_def simulate_gbm_multi_f32_def)

lemma simulate_gbm_unseeded_differ:
  "simulate_gbm counter_rng 1 0 0 0 1 (PyInt 1) (PyInt 1) None 0
     \<noteq> simulate_gbm counter_rng 1 0 0 0 1 (PyInt 1) (PyInt 1) None 1"
  by (simp add: simulate_gbm_def counter_rng_def Let_def)

text \<open>
  Claim C2. The claim: with a seed supplied, seed 0 included, two calls with the same
  parameters return the same paths, in both simulators, and without a seed they need
  not. The single-asset simulator does so for every seed (\<open>simulate_gbm_seeded\<close>), the
  multi-asset one for every seed but 0 (\<open>simulate_gbm_multi_seeded\<close>), and unseeded calls
  can differ (\<open>simulate_gbm_unseeded_differ\<close>). With seed 0 the multi-asset simulator
  does not seed at all: two calls with the same parameters and seed 0, the second
  starting from the random state the first one left, return different paths.
\<close>

theorem multi_seed_zero_not_reproducible:
  "simulate_gbm_multi counter_rng 1 0 (DivFloat 0) [1] [1] 1 1 1 (Some 0) 0
     = Inr ([[[1, exp (- (1 / 2))]]], 1)
   \<and> simulate_gbm_multi counter_rng 1 0 (DivFloat 0) [1] [1] 1 1 1 (Some 0) 1
     = Inr ([[[1, exp (1 / 2)]]], 2)
   \<and> exp (- (1 / 2)) \<noteq> (exp (1 / 2) :: real)"
  by (simp add: simulate_gbm_multi_def simulate_gbm_multi_f32_def gbm_multi_step_def counter_rng_def Let_def upt_rec)

theorem multi_seed_zero_differs:
  "simulate_gbm_multi counter_rng 1 0 (DivFloat 0) [1] [1] 1 1 1 (Some 0) 0
     \<noteq> simulate_gbm_multi counter_rng 1 0 (DivFloat 0) [1] [1] 1 1 1 (Some 0) 1"
  using multi_seed_zero_not_reproducible by simp

text \<open>
  Claim C4, as stated, fails for the multi-asset simulator: it returns paths for a
  negative volatility and a negative initial price, and for a time step longer than the
  horizon, which leaves no date after date 0.
\<close>

theorem multi_accepts_invalid_inputs:
  "simulate_gbm_multi counter_rng 1 0 (DivFloat 0) [- 1] [- 1] 1 1 1 (Some 1) 0
     = Inr ([[[- 1, - exp (- (3 / 2))]]], 2)
   \<and> simulate_gbm_multi counter_rng 1 0 (DivFloat 0) [1] [1] 1 2 1 (Some 1) 0
     = Inr ([[[1]]], 1)"
  by (simp add: simulate_gbm_multi_def simulate_gbm_multi_f32_def gbm_multi_step_def counter_rng_def Let_def upt_rec
      random_seed_def)

text \<open>
  Claim C4, amended. The single-asset simulator fails with the invalid-parameter error,
  whatever the generator and its state, when the initial price or the maturity is not
  positive, the volatility is negative, or the date count or the path count is not a
  positive integer. The multi-asset simulator does so when the dimension, the horizon,
  the time step or the path count is not positive, the rate is negative, or the
  volatility, initial-price or dividend array does not have one entry per asset.
\<close>

theorem simulators_reject_invalid:
  "(price \<le> 0 \<or> T \<le> 0 \<or> sigma < 0 \<or> \<not> is_positive_int M \<or> \<not> is_positive_int I
      \<longrightarrow> simulate_gbm rng price r q sigma T M I seed g = Inl InvalidParameter)
   \<and> (dimension \<le> 0 \<or> int (length sigmas) \<noteq> dimension
        \<or> int (length initial_prices) \<noteq> dimension
        \<or> time_horizon \<le> 0 \<or> time_step \<le> 0 \<or> num_paths \<le> 0 \<or> risk_free_rate < 0
        \<or> (\<exists>a. dividend = DivArray a \<and> int (length a) \<noteq> dimension)
      \<longrightarrow> simulate_gbm_multi rng' dimension risk_free_rate dividend sigmas initial_prices
            time_horizon time_step num_paths seed' g' = Inl InvalidParameter)"
  by (auto simp add: simulate_gbm_def simulate_gbm_multi_def simulate_gbm_multi_f32_def split: dividend_rates.splits)

theorem simulators_reject_invalid_witness:
  "simulate_gbm counter_rng 100 (5 / 100) (1 / 10) (- (2 / 10)) 3 (PyInt 9) (PyInt 4) (Some 42) 0
     = Inl InvalidParameter
   \<and> simulate_gbm counter_rng 100 (5 / 100) (1 / 10) (2 / 10) 3 (PyFloat (5 / 2)) (PyInt 4)
       (Some 42) 0 = Inl InvalidParameter
   \<and> simulate_gbm_multi counter_rng 2 (5 / 100) (DivFloat (1 / 10)) [2 / 10] [100, 100]
       3 (1 / 3) 4 (Some 42) 0 = Inl InvalidParameter"
  using simulators_reject_invalid [where price = 100 and T = 3 and sigma = "- (2 / 10)"
      and M = "PyInt 9" and I = "PyInt 4" and rng = counter_rng and r = "5 / 100"
      and q = "1 / 10" and seed = "Some 42" and g = 0 and dimension = 2
      and sigmas = "[2 / 10]" and initial_prices = "[100, 100]" and time_horizon = 3
      and time_step = "1 / 3" and num_paths = 4 and risk_free_rate = "5 / 100"
      and dividend = "DivFloat (1 / 10)" and rng' = counter_rng and seed' = "Some 42" and g' = 0]
    simulators_reject_invalid [where price = 100 and T = 3 and sigma = "2 / 10"
      and M = "PyFloat (5 / 2)" and I = "PyInt 4" and rng = counter_rng and r = "5 / 100"
      and q = "1 / 10" and seed = "Some 42" and g = 0 and dimension = 2
      and sigmas = "[2 / 10]" and initial_prices = "[100, 100]" and time_horizon = 3
      and time_step = "1 / 3" and num_paths = 4 and risk_free_rate = "5 / 100"
      and dividend = "DivFloat (1 / 10)" and rng' = counter_rng and seed' = "Some 42" and g' = 0]
  by simp

subsection \<open>The path arrays of the simulators\<close>

lemma gbm_loop_append:
  "gbm_loop d v R (ts @ us) P = gbm_loop d v R us (gbm_loop d v R ts P)"
  by (induction ts arbitrary: P) simp_all

lemma gbm_loop_length: "length (gbm_loop d v R ts P) = length P"
  by (induction ts arbitrary: P) simp_all

lemma gbm_loop_other: "k \<notin> set ts \<Longrightarrow> gbm_loop d v R ts P ! k = P ! k"
  by (induction ts arbitrary: P) auto

lemma upt_split3:
  assumes "Suc 0 \<le> t" "t \<le> m"
  shows "[Suc 0..<Suc m] = [Suc 0..<t] @ t # [Suc t..<Suc m]"
proof -
  have "[Suc 0..<Suc m] = [Suc 0..<t] @ [t..<Suc m]"
    using assms by (metis le_SucI upt_add_eq_append le_add_diff_inverse)
  also have "[t..<Suc m] = t # [Suc t..<Suc m]"
    using assms by (simp add: upt_conv_Cons)
  finally show ?thesis .
qed

lemma gbm_loop_rec:
  assumes "Suc 0 \<le> t" "t \<le> m" "length P = Suc m"
  shows "gbm_loop d v R [Suc 0..<Suc m] P ! t
       = map (\<lambda>(p, z). p * exp (d + v * z))
           (zip (gbm_loop d v R [Suc 0..<Suc m] P ! (t - 1)) (R ! (t - 1)))"
proof -
  define Q where "Q = gbm_loop d v R [Suc 0..<t] P"
  define x where "x = map (\<lambda>(p, z). p * exp (d + v * z)) (zip (Q ! (t - 1)) (R ! (t - 1)))"
  have full: "gbm_loop d v R [Suc 0..<Suc m] P = gbm_loop d v R [Suc t..<Suc m] (Q[t := x])"
    by (simp only: upt_split3 [OF assms(1,2)] gbm_loop_append gbm_loop.simps Q_def x_def)
  have lenQ: "t < length Q" using assms by (simp add: Q_def gbm_loop_length)
  have a: "gbm_loop d v R [Suc 0..<Suc m] P ! t = x"
    using lenQ by (simp add: full gbm_loop_other del: upt_Suc)
  have b: "gbm_loop d v R [Suc 0..<Suc m] P ! (t - 1) = Q ! (t - 1)"
    using assms(1) by (simp add: full gbm_loop_other del: upt_Suc)
  show ?thesis by (simp only: a b x_def)
qed

lemma gbm_loop_first: "gbm_loop d v R [Suc 0..<Suc m] P ! 0 = P ! 0"
  by (simp add: gbm_loop_other del: upt_Suc)

lemma map_zip_replicate:
  "length zs = i \<Longrightarrow> map (\<lambda>(p, z). f p) (zip (replicate i c) zs) = replicate i (f c)"
  by (induction zs arbitrary: i) auto


lemma gbm_closed:
  assumes "length R = m" "list_all (\<lambda>row. length row = i) R" "t \<le> m"
  shows "gbm_loop d 0 R [Suc 0..<Suc m]
           ((replicate (Suc m) (replicate i 0))[0 := replicate i S0]) ! t
       = replicate i (S0 * exp d ^ t)"
  using assms(3)
proof (induction t)
  case 0
  show ?case by (simp add: gbm_loop_first del: upt_Suc)
next
  case (Suc t)
  let ?paths = "gbm_loop d 0 R [Suc 0..<Suc m]
                  ((replicate (Suc m) (replicate i 0))[0 := replicate i S0])"
  have IH: "?paths ! t = replicate i (S0 * exp d ^ t)" using Suc by simp
  have row: "length (R ! t) = i"
    using assms(1,2) Suc.prems by (simp add: list_all_length)
  have rec: "?paths ! Suc t = map (\<lambda>(p, z). p * exp (d + 0 * z)) (zip (?paths ! t) (R ! t))"
    using gbm_loop_rec [of "Suc t" m _ d 0 R] Suc.prems by simp
  show ?case
    using map_zip_replicate [OF row, of "\<lambda>p. p * exp d" "S0 * exp d ^ t"]
    by (simp only: rec IH) (simp add: mult.assoc)
qed

lemma rng_shaped_counter: "rng_shaped counter_rng"
  by (simp add: rng_shaped_def counter_rng_def list_all_iff)















subsection \<open>Zero volatility: deterministic paths\<close>

lemma det_paths_nth: "t \<le> m \<Longrightarrow> det_paths s0 e m i ! t = replicate i (s0 * e ^ t)"
  unfolding det_paths_def by (subst nth_map) (simp_all del: upt_Suc)

lemma length_det_paths: "length (det_paths s0 e m i) = Suc m"
  by (simp add: det_paths_def)

lemma gbm_closed_all:
  assumes "length R = m" "list_all (\<lambda>row. length row = i) R"
  shows "gbm_loop d 0 R [Suc 0..<Suc m]
           ((replicate (Suc m) (replicate i 0))[0 := replicate i S0])
       = det_paths S0 (exp d) m i"
proof (rule nth_equalityI)
  show "length (gbm_loop d 0 R [Suc 0..<Suc m]
           ((replicate (Suc m) (replicate i 0))[0 := replicate i S0]))
      = length (det_paths S0 (exp d) m i)"
    by (simp add: gbm_loop_length length_det_paths)
next
  fix t assume "t < length (gbm_loop d 0 R [Suc 0..<Suc m]
           ((replicate (Suc m) (replicate i 0))[0 := replicate i S0]))"
  then have t: "t \<le> m" by (simp add: gbm_loop_length)
  show "gbm_loop d 0 R [Suc 0..<Suc m]
           ((replicate (Suc m) (replicate i 0))[0 := replicate i S0]) ! t
      = det_paths S0 (exp d) m i ! t"
    using gbm_closed [OF assms t] det_paths_nth [OF t] by simp
qed

lemma simulate_zero_vol:
  assumes "rng_shaped rng" "0 < S0" "0 < T" "0 < m" "0 < i" "seed_ok sd"
  shows "\<exists>g'. simulate_gbm rng S0 r q 0 T (PyInt (int m)) (PyInt (int i)) sd g
           = Inr (det_paths S0 (exp ((r - q) * (T / real m))) m i, g')"
proof -
  obtain g1 where g1: "(case sd of None \<Rightarrow> Inr g | Some s \<Rightarrow> random_seed rng s) = Inr g1"
    using assms(6) by (cases sd) (simp_all add: seed_ok_def random_seed_def)
  obtain R g2 where R: "np_standard_normal rng m i g1 = (R, g2)"
    by (cases "np_standard_normal rng m i g1") simp
  have shape: "length R = m" "list_all (\<lambda>row. length row = i) R"
    using assms(1) R unfolding rng_shaped_def by (metis fst_conv)+
  have "gbm_loop ((r - q) * (T / real m)) 0 R [Suc 0..<Suc m]
           ((replicate (Suc m) (replicate i 0))[0 := replicate i S0])
       = det_paths S0 (exp ((r - q) * (T / real m))) m i"
    by (rule gbm_closed_all [OF shape])
  then have "simulate_gbm rng S0 r q 0 T (PyInt (int m)) (PyInt (int i)) sd g
           = Inr (det_paths S0 (exp ((r - q) * (T / real m))) m i, g2)"
    using assms(2-5) by (simp add: simulate_gbm_def Let_def g1 R del: upt_Suc)
  then show ?thesis by blast
qed

lemma mask_replicate:
  "mask_select (replicate i a) (replicate i b) = (if b then replicate i a else [])"
  by (simp add: mask_select_def)

lemma np_mean_replicate: "0 < i \<Longrightarrow> np_mean (replicate i c) = c"
  by (simp add: np_mean_def sum_list_replicate)

lemma np_where_replicate_keep:
  "a \<le> b \<Longrightarrow>
   np_where (np_greater (replicate i a) (replicate i b)) (replicate i a) (replicate i v)
     = replicate i v"
  by (simp add: np_where_def np_greater_def)

lemma train_step_det:
  assumes "S ! t = replicate i s" "0 < i" "\<forall>X Y. X \<noteq> [] \<longrightarrow> pf X Y 0 = [np_mean Y]"
    and "max (s - K) 0 \<le> v * dsc"
  shows "train_step pf S K dsc 0 t (replicate i v, cs)
       = (replicate i v, cs @ [if s > K then Some [v * dsc] else None])"
proof (cases "s > K")
  case False
  then show ?thesis
    using assms(1) by (simp add: train_step_def Let_def mask_replicate)
next
  case True
  have ne: "replicate i s \<noteq> []" using assms(2) by simp
  have fit: "pf (replicate i s) (replicate i (v * dsc)) 0 = [v * dsc]"
    using assms(2,3) ne by (simp add: np_mean_replicate)
  show ?thesis
    using True assms(1,2,4)
    by (simp add: train_step_def Let_def mask_replicate fit polyval_def call_payoff_def
        np_where_replicate_keep)
qed

lemma train_loop_det:
  assumes "0 < i" "\<forall>X Y. X \<noteq> [] \<longrightarrow> pf X Y 0 = [np_mean Y]"
    and "\<forall>t \<in> set ts. S ! t = replicate i (s t) \<and> max (s t - K) 0 \<le> v * dsc"
  shows "train_loop pf S K dsc 0 ts (replicate i v, cs)
       = (replicate i v, cs @ map (\<lambda>t. if s t > K then Some [v * dsc] else None) ts)"
  using assms(3)
proof (induction ts arbitrary: cs)
  case Nil
  show ?case by simp
next
  case (Cons t ts)
  have "train_step pf S K dsc 0 t (replicate i v, cs)
       = (replicate i v, cs @ [if s t > K then Some [v * dsc] else None])"
    using Cons.prems by (intro train_step_det assms(1,2)) simp_all
  then show ?case using Cons by simp
qed

lemma test_step_det:
  assumes "S ! t = replicate i s"
    and "cs ! (t - 1) = (if s > K then Some [c] else None)" "max (s - K) 0 \<le> c"
  shows "test_step S K cs t (replicate i v) = replicate i v"
  using assms
  by (simp add: test_step_def Let_def polyval_def call_payoff_def np_where_replicate_keep)

lemma test_loop_det:
  assumes "\<forall>t \<in> set ts. S ! t = replicate i (s t)
             \<and> cs ! (t - 1) = (if s t > K then Some [c] else None) \<and> max (s t - K) 0 \<le> c"
  shows "test_loop S K cs ts (replicate i v) = replicate i v"
  using assms
proof (induction ts)
  case Nil
  show ?case by simp
next
  case (Cons t ts)
  have "test_step S K cs t (replicate i v) = replicate i v"
    using Cons.prems by (intro test_step_det [where s = "s t" and c = c]) simp_all
  then show ?case using Cons by simp
qed

lemma call_payoff_replicate:
  "call_payoff (replicate i x) K = replicate i (max (x - K) 0)"
  by (simp add: call_payoff_def)

lemma last_det_paths: "last (det_paths s0 e m i) = replicate i (s0 * e ^ m)"
  using det_paths_nth [of m m s0 e i] length_det_paths [of s0 e m i]
  by (metis diff_Suc_1 last_conv_nth le_refl length_0_conv nat.distinct(1))

lemma train_det_paths:
  assumes "0 < i" "\<forall>X Y. X \<noteq> [] \<longrightarrow> pf X Y 0 = [np_mean Y]"
    and "0 < K" "0 < T" "1 \<le> m"
    and "\<forall>t. Suc 0 \<le> t \<and> t < m
           \<longrightarrow> max (s0 * e ^ t - K) 0 \<le> max (s0 * e ^ m - K) 0 * exp (- r * (T / real m))"
  shows "longstaff_schwartz_train pf (det_paths s0 e m i) K r T 0
       = Inr (map (\<lambda>t. if s0 * e ^ t > K
                        then Some [max (s0 * e ^ m - K) 0 * exp (- r * (T / real m))] else None)
                [Suc 0..<m])"
proof -
  define dsc where "dsc = exp (- r * (T / real m))"
  have d: "discount_of (det_paths s0 e m i) r T = dsc"
    by (simp add: discount_of_def length_det_paths dsc_def)
  have loop: "train_loop pf (det_paths s0 e m i) K dsc 0 (rev [Suc 0..<m])
                (replicate i (max (s0 * e ^ m - K) 0), [])
      = (replicate i (max (s0 * e ^ m - K) 0),
         [] @ map (\<lambda>t. if s0 * e ^ t > K
                        then Some [max (s0 * e ^ m - K) 0 * dsc] else None)
                (rev [Suc 0..<m]))"
    using assms(6) unfolding dsc_def [symmetric]
    by (intro train_loop_det assms(1,2)) (simp add: det_paths_nth)
  have "longstaff_schwartz_train pf (det_paths s0 e m i) K r T 0
       = Inr (map (\<lambda>t. if s0 * e ^ t > K
                        then Some [max (s0 * e ^ m - K) 0 * dsc] else None)
                [Suc 0..<m])"
    using train_returns [OF length_det_paths assms(5,3,4), of 0 pf s0 e i r]
    by (simp add: d last_det_paths call_payoff_replicate loop rev_map)
  then show ?thesis unfolding dsc_def .
qed

lemma test_det_paths:
  assumes "0 < i" "1 \<le> m"
    and "\<forall>t. Suc 0 \<le> t \<and> t < m \<longrightarrow> max (s0 * e ^ t - K) 0 \<le> c"
  shows "longstaff_schwartz_test (det_paths s0 e m i) K r T
           (map (\<lambda>t. if s0 * e ^ t > K then Some [c] else None) [Suc 0..<m])
       = Inr (max (s0 * e ^ m - K) 0 * exp (- r * (T / real m)))"
proof -
  have loop: "test_loop (det_paths s0 e m i) K
                (map (\<lambda>t. if s0 * e ^ t > K then Some [c] else None) [Suc 0..<m])
                (rev [Suc 0..<m]) (replicate i (max (s0 * e ^ m - K) 0))
      = replicate i (max (s0 * e ^ m - K) 0)"
    using assms(3) by (intro test_loop_det [where s = "\<lambda>t. s0 * e ^ t" and c = c])
      (auto simp add: det_paths_nth)
  have ne: "det_paths s0 e m i \<noteq> []" using length_det_paths [of s0 e m i] by auto
  have len: "int (m - Suc 0) = int m - 1" using assms(2) by simp
  show ?thesis
    using assms(1,2)
    by (simp add: longstaff_schwartz_test_def Let_def length_det_paths ne len
        last_det_paths call_payoff_replicate loop np_mean_replicate)
qed

text \<open>
  Claim C3, amended. With zero volatility, degree 0 (where the least-squares fit of a
  non-empty sample is its mean), a generator that returns arrays of the requested shape,
  seeds numpy accepts and valid parameters, the pricing cell returns
  \<open>exp (- r T) * max (S0 * exp ((r - q) T) - K) 0\<close>, the intrinsic payoff at maturity
  discounted to time 0, when there is a single exercise date (\<open>M = 1\<close>), or when the rate
  is 0 and the dividend yield is not positive (the deterministic price does not fall
  and nothing is discounted).
\<close>

theorem zero_vol_price:
  assumes "rng_shaped rng" "\<forall>X Y. X \<noteq> [] \<longrightarrow> pf X Y 0 = [np_mean Y]"
    and "0 < price" "0 < T" "0 < K" "0 < M" "0 < I_train" "0 < I_test"
    and "seed_ok seed_train" "seed_ok seed_test"
    and "M = 1 \<or> (r = 0 \<and> q \<le> 0)"
  shows "lsm_price rng pf price r q 0 K 0 T (PyInt (int M)) (PyInt (int I_train)) seed_train
           (PyInt (int I_test)) seed_test g
       = Inr (exp (- r * T) * max (price * exp ((r - q) * T) - K) 0)"
proof -
  define e where "e = exp ((r - q) * (T / real M))"
  define c where "c = max (price * e ^ M - K) 0 * exp (- r * (T / real M))"
  have eM: "e ^ M = exp ((r - q) * T)"
    using assms(6) by (simp add: e_def exp_of_nat_mult [symmetric])
  have cond: "\<forall>t. Suc 0 \<le> t \<and> t < M \<longrightarrow> max (price * e ^ t - K) 0 \<le> c"
  proof (intro allI impI)
    fix t assume t: "Suc 0 \<le> t \<and> t < M"
    then have r0: "r = 0" "q \<le> 0" using assms(11) by auto
    have "0 \<le> (r - q) * (T / real M)"
      using r0 assms(4,6) by (intro mult_nonneg_nonneg divide_nonneg_nonneg) simp_all
    then have "1 \<le> e" unfolding e_def by (simp only: one_le_exp_iff)
    then have "e ^ t \<le> e ^ M" using t by (intro power_increasing) simp_all
    then have "price * e ^ t \<le> price * e ^ M" using assms(3) by simp
    then show "max (price * e ^ t - K) 0 \<le> c" by (simp add: c_def r0)
  qed
  obtain g1 where sim1: "simulate_gbm rng price r q 0 T (PyInt (int M)) (PyInt (int I_train))
        seed_train g = Inr (det_paths price e M I_train, g1)"
    using simulate_zero_vol [OF assms(1,3,4,6,7,9)] unfolding e_def by blast
  obtain g2 where sim2: "simulate_gbm rng price r q 0 T (PyInt (int M)) (PyInt (int I_test))
        seed_test g1 = Inr (det_paths price e M I_test, g2)"
    using simulate_zero_vol [OF assms(1,3,4,6,8,10)] unfolding e_def by blast
  have tr: "longstaff_schwartz_train pf (det_paths price e M I_train) K r T 0
       = Inr (map (\<lambda>t. if price * e ^ t > K then Some [c] else None) [Suc 0..<M])"
    unfolding c_def using assms(6) cond [unfolded c_def]
    by (intro train_det_paths assms(7,2,5,4)) simp_all
  have te: "longstaff_schwartz_test (det_paths price e M I_test) K r T
           (map (\<lambda>t. if price * e ^ t > K then Some [c] else None) [Suc 0..<M])
       = Inr (max (price * e ^ M - K) 0 * exp (- r * (T / real M)))"
    using assms(6) cond by (intro test_det_paths assms(8)) simp_all
  have fin: "exp (- r * (T / real M)) = exp (- r * T)"
    using assms(11) by auto
  have "lsm_price rng pf price r q 0 K 0 T (PyInt (int M)) (PyInt (int I_train)) seed_train
           (PyInt (int I_test)) seed_test g
       = Inr (max (price * e ^ M - K) 0 * exp (- r * (T / real M)))"
    by (simp only: lsm_price_def sim1 sim2 tr te sum.case prod.case)
  then show ?thesis
    by (simp only: eM fin mult.commute)
qed

theorem zero_vol_price_witness:
  "lsm_price counter_rng mean_fit 100 0 (- 1) 0 100 0 3 (PyInt (int 9)) (PyInt (int 4)) (Some 42)
     (PyInt (int 2)) (Some 45) 0
     = Inr (exp (- 0 * 3) * max (100 * exp ((0 - (- 1)) * 3) - 100) 0)
   \<and> lsm_price counter_rng mean_fit 100 (5 / 100) (1 / 10) 0 100 0 3 (PyInt (int 1))
       (PyInt (int 4)) (Some 42) (PyInt (int 2)) None 0
     = Inr (exp (- (5 / 100) * 3) * max (100 * exp ((5 / 100 - 1 / 10) * 3) - 100) 0)"
proof -
  have pf: "\<forall>X Y. X \<noteq> [] \<longrightarrow> mean_fit X Y 0 = [np_mean Y]"
    by (simp add: mean_fit_def)
  have s1: "seed_ok (Some 42)" and s2: "seed_ok (Some 45)" and s3: "seed_ok None"
    by (simp_all add: seed_ok_def)
  show ?thesis
    using zero_vol_price [where rng = counter_rng and pf = mean_fit and price = 100 and T = 3 and K = 100
        and M = 9 and I_train = 4 and I_test = 2 and seed_train = "Some 42"
        and seed_test = "Some 45" and r = 0 and q = "- 1" and g = 0]
      zero_vol_price [where rng = counter_rng and pf = mean_fit and price = 100 and T = 3 and K = 100
        and M = 1 and I_train = 4 and I_test = 2 and seed_train = "Some 42"
        and seed_test = None and r = "5 / 100" and q = "1 / 10" and g = 0]
      s1 s2 s3 pf rng_shaped_counter
    by simp
qed

text \<open>
  Claim C3, as stated, fails. With initial price 2, strike 1, rate 1, dividend yield 1,
  maturity 2 and two dates the deterministic price stays at 2: exercising at date 1 pays
  1, more than the maturity payoff 1 discounted by one step, so the policy exercises at
  date 1 and the price is \<open>exp (-1)\<close>, not the discounted maturity payoff \<open>exp (-2)\<close>.
\<close>

theorem zero_vol_early_exercise:
  "lsm_price counter_rng mean_fit 2 1 1 0 1 0 2 (PyInt 2) (PyInt 1) (Some 42) (PyInt 1) (Some 45) 0
     = Inr (exp (- 1))
   \<and> exp (- 1) \<noteq> exp (- 1 * 2) * max (2 * exp ((1 - 1) * 2) - 1) (0 :: real)"
  by (simp add: lsm_price_def simulate_gbm_def counter_rng_def random_seed_def
      longstaff_schwartz_train_def longstaff_schwartz_test_def train_step_def
      test_step_def Let_def call_payoff_def mask_select_def mean_fit_def np_mean_def polyval_def
      np_where_def np_greater_def upt_rec numeral_2_eq_2)

end
